theory Spec2Isabelle
  imports Complex_Main
begin

section \<open>The collider components of The Render Engine\<close>

text \<open>
  The two classes of \<^verbatim>\<open>src/engine/components/collision/circle.js\<close>,
  \<^verbatim>\<open>R.components.collision.Circle\<close> and \<^verbatim>\<open>R.components.collision.Box\<close>, as state
  transformers over a record of the component's properties.

  JavaScript numbers are read as real numbers: rounding, infinities and NaN are outside
  the model. The concrete inputs evaluated below are small integers, on which the
  arithmetic of doubles is exact. An uncaught exception is an outcome of its own, \<open>Threw\<close>, returned together
  with the component as the statements before the throw left it.
\<close>

subsection \<open>Values\<close>

text \<open>\<^verbatim>\<open>R.components.Collider.CONTINUE\<close> and \<^verbatim>\<open>R.components.Collider.STOP\<close>.\<close>

datatype verdict = CONTINUE | STOP

text \<open>\<^verbatim>\<open>R.components.Collider.SIMPLE_TEST\<close> and \<^verbatim>\<open>R.components.Collider.DETAILED_TEST\<close>.\<close>

datatype test_mode = SIMPLE_TEST | DETAILED_TEST

datatype js_error = TypeError | ReferenceError

datatype outcome = Returned verdict | Threw js_error

text \<open>
  A \<^verbatim>\<open>Point2D\<close> or \<^verbatim>\<open>Vector2D\<close>: the properties \<^verbatim>\<open>x\<close> and \<^verbatim>\<open>y\<close> that the colliders read
  and the two arguments of \<^verbatim>\<open>R.math.Vector2D.create\<close>.
\<close>

record vector2d =
  vx :: real
  vy :: real

text \<open>A \<^verbatim>\<open>Circle2D\<close>, by what \<^verbatim>\<open>getCenter()\<close> and \<^verbatim>\<open>getRadius()\<close> return.\<close>

record circle2d =
  getCenter :: vector2d
  getRadius :: real

text \<open>
  A \<^verbatim>\<open>Rectangle2D\<close>, by what \<^verbatim>\<open>getCenter()\<close>, \<^verbatim>\<open>getHalfWidth()\<close> and
  \<^verbatim>\<open>getHalfHeight()\<close> return.
\<close>

record rectangle2d =
  getBoxCenter :: vector2d
  getHalfWidth :: real
  getHalfHeight :: real

text \<open>
  What a shape slot of a CollisionData can hold: \<^verbatim>\<open>null\<close>, a circle, or any other value
  (told apart by a number).
\<close>

datatype shape_ref = NullRef | CircleRef circle2d | OtherRef nat

text \<open>
  \<^verbatim>\<open>R.struct.CollisionData\<close>, by the five arguments of \<^verbatim>\<open>CollisionData.create\<close> in their
  order; the spec names them distance, normal, shapeA, shapeB and separation.
\<close>

record collision_data =
  distance :: real
  normal :: vector2d
  shapeA :: shape_ref
  shapeB :: shape_ref
  separation :: vector2d

text \<open>
  A game object as the colliders use it. An accessor the object does not have is \<open>None\<close>;
  one it has is given by the shape it returns. \<open>onCollide\<close> is the host's callback, by the
  verdict it returns for the time, the candidate (its \<open>objId\<close>) and the two masks.
\<close>

record game_object =
  objId :: nat
  getWorldCircle :: "circle2d option"
  getWorldBox :: "rectangle2d option"
  onCollide :: "real \<Rightarrow> nat \<Rightarrow> int \<Rightarrow> int \<Rightarrow> verdict"

text \<open>
  The value of one of the properties \<^verbatim>\<open>hasMethods\<close> and \<^verbatim>\<open>hasMethod\<close>: never assigned,
  \<^verbatim>\<open>null\<close>, a boolean, or an array of booleans.
\<close>

datatype js_prop = Undefined | Null | Flag bool | FlagArray "bool list"

text \<open>JavaScript's truthiness, as \<^verbatim>\<open>!\<close> reads these values.\<close>

fun truthy :: "js_prop \<Rightarrow> bool" where
  "truthy Undefined = False"
| "truthy Null = False"
| "truthy (Flag b) = b"
| "truthy (FlagArray bs) = True"

text \<open>
  The property read \<^verbatim>\<open>p[0]\<close>: a TypeError (\<open>None\<close>) on \<^verbatim>\<open>undefined\<close> and \<^verbatim>\<open>null\<close>,
  \<^verbatim>\<open>undefined\<close> on a boolean and on the empty array, the first element otherwise.
\<close>

fun index0 :: "js_prop \<Rightarrow> js_prop option" where
  "index0 Undefined = None"
| "index0 Null = None"
| "index0 (Flag b) = Some Undefined"
| "index0 (FlagArray []) = Some Undefined"
| "index0 (FlagArray (b # bs)) = Some (Flag b)"

subsection \<open>The component\<close>

text \<open>
  A collider component. \<open>hostObject\<close>, \<open>testMode\<close> and \<open>cData\<close> are the state of the base
  class \<^verbatim>\<open>R.components.Collider\<close>; \<open>hasMethods\<close> and \<open>hasMethod\<close> are the two property
  names that the classes of this file read and write. The last two fields record effects
  on other objects: \<open>destroyed\<close> lists the CollisionData objects on which \<^verbatim>\<open>destroy()\<close>
  was called, \<open>dispatched\<close> the candidates handed to the host's callback, latest first.
\<close>

record collider =
  hostObject :: "game_object option"
  testMode :: test_mode
  cData :: "collision_data option"
  hasMethods :: js_prop
  hasMethod :: js_prop
  destroyed :: "collision_data list"
  dispatched :: "nat list"

text \<open>
  What the file takes from its surroundings without defining it: the two intersection
  predicates \<^verbatim>\<open>Circle2D.isIntersecting\<close> and \<^verbatim>\<open>Rectangle2D.isIntersecting\<close>, and the
  bindings of the identifiers \<^verbatim>\<open>shape1\<close> and \<^verbatim>\<open>shape2\<close>, which no scope of the file
  declares (\<open>None\<close>: no binding, so that reading the identifier is a ReferenceError).
\<close>

record environment =
  circle_isIntersecting :: "circle2d \<Rightarrow> circle2d \<Rightarrow> bool"
  rect_isIntersecting :: "rectangle2d \<Rightarrow> rectangle2d \<Rightarrow> bool"
  shape1 :: "shape_ref option"
  shape2 :: "shape_ref option"

subsection \<open>The base class and the geometry helpers\<close>

text \<open>
  Modelled from the spec: \<^verbatim>\<open>R.math.Vector2D.len\<close> is not under src/. The spec writes
  "distance = |separationVector|" for the argument \<^verbatim>\<open>sep.len()\<close>: the Euclidean norm.
\<close>

definition Vector2D_len :: "vector2d \<Rightarrow> real" where
  "Vector2D_len v = sqrt (vx v * vx v + vy v * vy v)"

text \<open>
  Modelled from the spec: \<^verbatim>\<open>R.math.Vector2D.normalize\<close> is not under src/. The spec
  writes "normal = normalize(center2 - center1)", a unit vector: the vector divided by its
  length. The spec gives no result for the zero vector, and no statement below depends on
  the value of this definition there.
\<close>

definition Vector2D_normalize :: "vector2d \<Rightarrow> vector2d" where
  "Vector2D_normalize v = \<lparr>vx = vx v / Vector2D_len v, vy = vy v / Vector2D_len v\<rparr>"

text \<open>
  Modelled from the spec: \<^verbatim>\<open>R.struct.CollisionData.create\<close> is not under src/. The
  record of section 3 of the spec, filled from the five arguments.
\<close>

definition CollisionData_create ::
  "real \<Rightarrow> vector2d \<Rightarrow> shape_ref \<Rightarrow> shape_ref \<Rightarrow> vector2d \<Rightarrow> collision_data" where
  "CollisionData_create d n s1 s2 sep =
     \<lparr>distance = d, normal = n, shapeA = s1, shapeB = s2, separation = sep\<rparr>"

text \<open>
  Modelled from the spec: \<^verbatim>\<open>CollisionData.destroy\<close> is not under src/. The object is
  disposed of; the model records on which objects that happened.
\<close>

definition CollisionData_destroy :: "collision_data \<Rightarrow> collider \<Rightarrow> collider" where
  "CollisionData_destroy d this = this\<lparr>destroyed := d # destroyed this\<rparr>"

text \<open>
  Modelled from the spec: the accessors of \<^verbatim>\<open>R.components.Collider\<close> are not under
  src/. The base class "holds at most one pending CollisionData", "a test-mode flag" and
  its host.
\<close>

definition getCollisionData :: "collider \<Rightarrow> collision_data option" where
  "getCollisionData this = cData this"

definition setCollisionData :: "collider \<Rightarrow> collision_data option \<Rightarrow> collider" where
  "setCollisionData this d = this\<lparr>cData := d\<rparr>"

definition getHostObject :: "collider \<Rightarrow> game_object option" where
  "getHostObject this = hostObject this"

definition getTestMode :: "collider \<Rightarrow> test_mode" where
  "getTestMode this = testMode this"

definition setTestMode :: "collider \<Rightarrow> test_mode \<Rightarrow> collider" where
  "setTestMode this m = this\<lparr>testMode := m\<rparr>"

text \<open>
  Modelled from the spec: \<^verbatim>\<open>R.components.Collider.setHostObject\<close> is not under src/.
  "attach(host): binds host".
\<close>

definition Collider_setHostObject :: "collider \<Rightarrow> game_object \<Rightarrow> collider" where
  "Collider_setHostObject this hostObj = this\<lparr>hostObject := Some hostObj\<rparr>"

text \<open>
  Modelled from the spec: \<^verbatim>\<open>R.components.Collider.release\<close> is not under src/.
  "returns the component to a clean reusable state (no retained CollisionData ...)". Of
  the properties of this model the base class owns \<open>cData\<close>; the capability caches belong
  to the two classes of the file, which reset them after the base call.
\<close>

definition Collider_release :: "collider \<Rightarrow> collider" where
  "Collider_release this = this\<lparr>cData := None\<rparr>"

text \<open>
  Modelled from the spec: \<^verbatim>\<open>R.components.Collider.testCollision\<close> is not under src/.
  The "base class's collision callback dispatch": it calls the host's \<^verbatim>\<open>onCollide\<close> and
  returns its verdict. A component without a host cannot call it (TypeError).
\<close>

definition Collider_testCollision ::
  "collider \<Rightarrow> real \<Rightarrow> game_object \<Rightarrow> int \<Rightarrow> int \<Rightarrow> outcome \<times> collider" where
  "Collider_testCollision this time collisionObj hostMask targetMask =
     (case hostObject this of
        None \<Rightarrow> (Threw TypeError, this)
      | Some host \<Rightarrow>
          (Returned (onCollide host time (objId collisionObj) hostMask targetMask),
           this\<lparr>dispatched := objId collisionObj # dispatched this\<rparr>))"

subsection \<open>R.components.collision.Circle\<close>

text \<open>
  The prototype's values, \<^verbatim>\<open>hasMethods: null\<close> and \<^verbatim>\<open>cData: null\<close>; the class declares
  no \<^verbatim>\<open>hasMethod\<close>. The test mode is the default of the spec, and nothing has been
  destroyed or dispatched.
\<close>

definition Circle_new :: collider where
  "Circle_new =
     \<lparr>hostObject = None, testMode = SIMPLE_TEST, cData = None, hasMethods = Null,
      hasMethod = Undefined, destroyed = [], dispatched = []\<rparr>"

definition Circle_release :: "collider \<Rightarrow> collider" where
  "Circle_release this = (Collider_release this)\<lparr>hasMethod := Null, cData := None\<rparr>"

text \<open>
  The \<^verbatim>\<open>AssertWarn\<close> between the DEBUG pragmas writes to the console and changes nothing
  of the component; it is left out.
\<close>

definition Circle_setHostObject :: "collider \<Rightarrow> game_object \<Rightarrow> collider" where
  "Circle_setHostObject this hostObj =
     (Collider_setHostObject this hostObj)
       \<lparr>hasMethods := FlagArray [getWorldCircle hostObj \<noteq> None]\<rparr>"

text \<open>The first statement of both \<^verbatim>\<open>testCollision\<close> methods.\<close>

definition cleanUpOldData :: "collider \<Rightarrow> collider" where
  "cleanUpOldData this =
     (case getCollisionData this of
        None \<Rightarrow> this
      | Some d \<Rightarrow> setCollisionData (CollisionData_destroy d this) None)"

definition Circle_testCollision ::
  "environment \<Rightarrow> collider \<Rightarrow> real \<Rightarrow> game_object \<Rightarrow> int \<Rightarrow> int \<Rightarrow> outcome \<times> collider" where
  "Circle_testCollision env this0 time collisionObj hostMask targetMask =
     (let this = cleanUpOldData this0 in
      case index0 (hasMethods this) of
        None \<Rightarrow> (Threw TypeError, this)
      | Some flag \<Rightarrow>
          if \<not> truthy flag \<and> getWorldCircle collisionObj = None
          then (Returned CONTINUE, this)
          else
            (case getHostObject this of
               None \<Rightarrow> (Threw TypeError, this)
             | Some host \<Rightarrow>
                 (case getWorldCircle host of
                    None \<Rightarrow> (Threw TypeError, this)
                  | Some circle1 \<Rightarrow>
                      (case getWorldCircle collisionObj of
                         None \<Rightarrow> (Threw TypeError, this)
                       | Some circle2 \<Rightarrow>
                           if getTestMode this = SIMPLE_TEST
                              \<and> circle_isIntersecting env circle1 circle2
                           then Collider_testCollision this time collisionObj hostMask targetMask
                           else
                             (let tRad = getRadius circle1 + getRadius circle2;
                                  c1 = getCenter circle1;
                                  c2 = getCenter circle2;
                                  distSqr = (vx c1 - vx c2) * (vx c1 - vx c2)
                                          + (vy c1 - vy c2) * (vy c1 - vy c2)
                              in if distSqr < tRad * tRad
                                 then
                                   (let diff = tRad - sqrt distSqr;
                                        sep = \<lparr>vx = (vx c2 - vx c1) * diff,
                                               vy = (vy c2 - vy c1) * diff\<rparr>
                                    in case shape1 env of
                                         None \<Rightarrow> (Threw ReferenceError, this)
                                       | Some s1 \<Rightarrow>
                                           (case shape2 env of
                                              None \<Rightarrow> (Threw ReferenceError, this)
                                            | Some s2 \<Rightarrow>
                                                Collider_testCollision
                                                  (setCollisionData this
                                                     (Some (CollisionData_create
                                                        (Vector2D_len sep)
                                                        (Vector2D_normalize
                                                           \<lparr>vx = vx c2 - vx c1,
                                                            vy = vy c2 - vy c1\<rparr>)
                                                        s1 s2 sep)))
                                                  time collisionObj hostMask targetMask))
                                 else (Returned CONTINUE, this))))))"

subsection \<open>R.components.collision.Box\<close>

text \<open>
  The prototype's value, \<^verbatim>\<open>hasMethod: false\<close>; the class declares no \<^verbatim>\<open>hasMethods\<close>.
\<close>

definition Box_new :: collider where
  "Box_new =
     \<lparr>hostObject = None, testMode = SIMPLE_TEST, cData = None, hasMethods = Undefined,
      hasMethod = Flag False, destroyed = [], dispatched = []\<rparr>"

definition Box_release :: "collider \<Rightarrow> collider" where
  "Box_release this = (Collider_release this)\<lparr>hasMethod := Flag False\<rparr>"

definition Box_setHostObject :: "collider \<Rightarrow> game_object \<Rightarrow> collider" where
  "Box_setHostObject this hostObj =
     (Collider_setHostObject this hostObj)
       \<lparr>hasMethod := Flag (getWorldBox hostObj \<noteq> None)\<rparr>"

definition Box_testCollision ::
  "environment \<Rightarrow> collider \<Rightarrow> real \<Rightarrow> game_object \<Rightarrow> int \<Rightarrow> int \<Rightarrow> outcome \<times> collider" where
  "Box_testCollision env this0 time collisionObj hostMask targetMask =
     (let this = cleanUpOldData this0 in
      if \<not> truthy (hasMethods this) \<and> getWorldBox collisionObj = None
      then (Returned CONTINUE, this)
      else
        (case getHostObject this of
           None \<Rightarrow> (Threw TypeError, this)
         | Some host \<Rightarrow>
             (case getWorldBox host of
                None \<Rightarrow> (Threw TypeError, this)
              | Some box1 \<Rightarrow>
                  (case getWorldBox collisionObj of
                     None \<Rightarrow> (Threw TypeError, this)
                   | Some box2 \<Rightarrow>
                       if getTestMode this = SIMPLE_TEST
                       then
                         (if rect_isIntersecting env box1 box2
                          then Collider_testCollision this time collisionObj hostMask targetMask
                          else (Returned CONTINUE, this))
                       else
                         (let tRad = max (getHalfWidth box1) (getHalfHeight box1)
                                   + max (getHalfWidth box2) (getHalfHeight box2);
                              c1 = getBoxCenter box1;
                              c2 = getBoxCenter box2;
                              distSqr = (vx c1 - vx c2) * (vx c1 - vx c2)
                                      + (vy c1 - vy c2) * (vy c1 - vy c2)
                          in if distSqr < tRad * tRad
                             then
                               (let diff = tRad - sqrt distSqr;
                                    sep = \<lparr>vx = (vx c2 - vx c1) * diff,
                                           vy = (vy c2 - vy c1) * diff\<rparr>
                                in Collider_testCollision
                                     (setCollisionData this
                                        (Some (CollisionData_create
                                           (Vector2D_len sep)
                                           (Vector2D_normalize
                                              \<lparr>vx = vx c2 - vx c1, vy = vy c2 - vy c1\<rparr>)
                                           NullRef NullRef sep)))
                                     time collisionObj hostMask targetMask)
                             else (Returned CONTINUE, this))))))"

subsection \<open>Concrete surroundings and objects\<close>

text \<open>
  Modelled from the spec: \<^verbatim>\<open>R.math.Circle2D.isIntersecting\<close> is not under src/.
  "boolean circle-circle intersection (sum of radii vs. center distance)", here on the
  squares and with touching circles counted as intersecting. The colliders take the
  predicate from their environment; this one serves as a concrete instance.
\<close>

definition Circle2D_isIntersecting :: "circle2d \<Rightarrow> circle2d \<Rightarrow> bool" where
  "Circle2D_isIntersecting a b =
     ((vx (getCenter a) - vx (getCenter b)) * (vx (getCenter a) - vx (getCenter b))
      + (vy (getCenter a) - vy (getCenter b)) * (vy (getCenter a) - vy (getCenter b))
      \<le> (getRadius a + getRadius b) * (getRadius a + getRadius b))"

text \<open>
  Modelled from the spec: \<^verbatim>\<open>R.math.Rectangle2D.isIntersecting\<close> is not under src/.
  "standard AABB overlap test on both axes". A concrete instance, as above.
\<close>

definition Rectangle2D_isIntersecting :: "rectangle2d \<Rightarrow> rectangle2d \<Rightarrow> bool" where
  "Rectangle2D_isIntersecting a b =
     (\<bar>vx (getBoxCenter a) - vx (getBoxCenter b)\<bar> \<le> getHalfWidth a + getHalfWidth b
      \<and> \<bar>vy (getBoxCenter a) - vy (getBoxCenter b)\<bar> \<le> getHalfHeight a + getHalfHeight b)"

text \<open>
  The surroundings as the sources give them: nothing under src/ declares \<^verbatim>\<open>shape1\<close> or
  \<^verbatim>\<open>shape2\<close>.
\<close>

definition source_env :: environment where
  "source_env =
     \<lparr>circle_isIntersecting = Circle2D_isIntersecting,
      rect_isIntersecting = Rectangle2D_isIntersecting,
      shape1 = None, shape2 = None\<rparr>"

text \<open>
  Three kinds of game object: one with a world circle only, one with a world box only,
  one with neither. The callback of the first two returns the given verdict.
\<close>

definition circle_object :: "nat \<Rightarrow> real \<Rightarrow> real \<Rightarrow> real \<Rightarrow> verdict \<Rightarrow> game_object" where
  "circle_object i cx cy r v =
     \<lparr>objId = i,
      getWorldCircle = Some \<lparr>getCenter = \<lparr>vx = cx, vy = cy\<rparr>, getRadius = r\<rparr>,
      getWorldBox = None,
      onCollide = (\<lambda>time obj hostMask targetMask. v)\<rparr>"

definition box_object ::
  "nat \<Rightarrow> real \<Rightarrow> real \<Rightarrow> real \<Rightarrow> real \<Rightarrow> verdict \<Rightarrow> game_object" where
  "box_object i cx cy hw hh v =
     \<lparr>objId = i,
      getWorldCircle = None,
      getWorldBox =
        Some \<lparr>getBoxCenter = \<lparr>vx = cx, vy = cy\<rparr>, getHalfWidth = hw, getHalfHeight = hh\<rparr>,
      onCollide = (\<lambda>time obj hostMask targetMask. v)\<rparr>"

definition bare_object :: "nat \<Rightarrow> game_object" where
  "bare_object i =
     \<lparr>objId = i, getWorldCircle = None, getWorldBox = None,
      onCollide = (\<lambda>time obj hostMask targetMask. CONTINUE)\<rparr>"

section \<open>Basic facts\<close>

lemmas collider_defs =
  cleanUpOldData_def getCollisionData_def setCollisionData_def CollisionData_destroy_def
  getHostObject_def getTestMode_def Collider_testCollision_def CollisionData_create_def
  Collider_setHostObject_def Collider_release_def setTestMode_def

lemmas object_defs = circle_object_def box_object_def bare_object_def

lemmas eval_defs =
  Circle_testCollision_def Box_testCollision_def Circle_setHostObject_def Box_setHostObject_def
  Circle_new_def Box_new_def Circle_release_def Box_release_def collider_defs source_env_def
  object_defs Let_def Vector2D_len_def Vector2D_normalize_def Circle2D_isIntersecting_def
  Rectangle2D_isIntersecting_def

lemma sqrt_9: "sqrt 9 = 3"
  using real_sqrt_abs [of 3] by simp

lemma cleanUpOldData_eq:
  "cleanUpOldData this =
     this\<lparr>cData := None,
          destroyed := (case cData this of None \<Rightarrow> destroyed this
                        | Some d \<Rightarrow> d # destroyed this)\<rparr>"
  by (cases "cData this")
     (simp_all add: cleanUpOldData_def getCollisionData_def setCollisionData_def
        CollisionData_destroy_def)

lemma cleanUpOldData_idem: "cleanUpOldData (cleanUpOldData this) = cleanUpOldData this"
  by (cases "cData this")
     (simp_all add: cleanUpOldData_def getCollisionData_def setCollisionData_def
        CollisionData_destroy_def)

lemma cleanUp_cData [simp]: "cData (cleanUpOldData t) = None"
  by (simp add: cleanUpOldData_eq)

lemma cleanUp_fields [simp]:
  "hostObject (cleanUpOldData t) = hostObject t"
  "testMode (cleanUpOldData t) = testMode t"
  "hasMethods (cleanUpOldData t) = hasMethods t"
  "hasMethod (cleanUpOldData t) = hasMethod t"
  "dispatched (cleanUpOldData t) = dispatched t"
  by (simp_all add: cleanUpOldData_eq)

lemma cleanUp_destroyed:
  "destroyed (cleanUpOldData t) =
     (case cData t of None \<Rightarrow> destroyed t | Some d \<Rightarrow> d # destroyed t)"
  by (simp add: cleanUpOldData_eq)

lemma setCollisionData_fields [simp]:
  "cData (setCollisionData t d) = d"
  "hostObject (setCollisionData t d) = hostObject t"
  "dispatched (setCollisionData t d) = dispatched t"
  "destroyed (setCollisionData t d) = destroyed t"
  by (simp_all add: setCollisionData_def)

lemma base_cData [simp]:
  "cData (snd (Collider_testCollision t time obj hm tm)) = cData t"
  by (simp add: Collider_testCollision_def split: option.splits)

lemma base_destroyed [simp]:
  "destroyed (snd (Collider_testCollision t time obj hm tm)) = destroyed t"
  by (simp add: Collider_testCollision_def split: option.splits)

lemma base_fst:
  "hostObject t = Some h \<Longrightarrow>
   fst (Collider_testCollision t time obj hm tm) = Returned (onCollide h time (objId obj) hm tm)"
  by (simp add: Collider_testCollision_def)

lemma base_dispatched:
  "hostObject t = Some h \<Longrightarrow>
   dispatched (snd (Collider_testCollision t time obj hm tm)) = objId obj # dispatched t"
  by (simp add: Collider_testCollision_def)

lemma Circle_attached [simp]:
  "hostObject (Circle_setHostObject c host) = Some host"
  "hasMethods (Circle_setHostObject c host) = FlagArray [getWorldCircle host \<noteq> None]"
  "testMode (Circle_setHostObject c host) = testMode c"
  "dispatched (Circle_setHostObject c host) = dispatched c"
  by (simp_all add: Circle_setHostObject_def Collider_setHostObject_def)

lemma Box_attached [simp]:
  "hostObject (Box_setHostObject c host) = Some host"
  "hasMethods (Box_setHostObject c host) = hasMethods c"
  "hasMethod (Box_setHostObject c host) = Flag (getWorldBox host \<noteq> None)"
  "testMode (Box_setHostObject c host) = testMode c"
  "dispatched (Box_setHostObject c host) = dispatched c"
  by (simp_all add: Box_setHostObject_def Collider_setHostObject_def)

section \<open>Disposal of old collision data\<close>

text \<open>
  C5. Every call of \<^verbatim>\<open>testCollision\<close>, of the circle and of the box collider, first
  destroys the CollisionData stored before and clears the reference. However the call
  ends, also with an exception, \<^verbatim>\<open>destroy()\<close> has been called on the old data and on
  nothing else (third and fourth conjunct), and the call is the call on the component
  with the reference cleared (first and second conjunct): nothing of the old data
  reaches the new test. The component holds at most one CollisionData by the type of
  \<open>cData\<close>.
\<close>

theorem testCollision_disposes_old_data_first:
  "Circle_testCollision env this time obj hm tm =
     Circle_testCollision env
       (this\<lparr>cData := None,
             destroyed := (case cData this of None \<Rightarrow> destroyed this
                           | Some d \<Rightarrow> d # destroyed this)\<rparr>) time obj hm tm
   \<and> Box_testCollision env this time obj hm tm =
     Box_testCollision env
       (this\<lparr>cData := None,
             destroyed := (case cData this of None \<Rightarrow> destroyed this
                           | Some d \<Rightarrow> d # destroyed this)\<rparr>) time obj hm tm
   \<and> destroyed (snd (Circle_testCollision env this time obj hm tm)) =
       (case cData this of None \<Rightarrow> destroyed this | Some d \<Rightarrow> d # destroyed this)
   \<and> destroyed (snd (Box_testCollision env this time obj hm tm)) =
       (case cData this of None \<Rightarrow> destroyed this | Some d \<Rightarrow> d # destroyed this)"
proof (intro conjI)
  show "Circle_testCollision env this time obj hm tm =
     Circle_testCollision env
       (this\<lparr>cData := None,
             destroyed := (case cData this of None \<Rightarrow> destroyed this
                           | Some d \<Rightarrow> d # destroyed this)\<rparr>) time obj hm tm"
    unfolding cleanUpOldData_eq [symmetric] Circle_testCollision_def
    by (simp only: cleanUpOldData_idem)
  show "Box_testCollision env this time obj hm tm =
     Box_testCollision env
       (this\<lparr>cData := None,
             destroyed := (case cData this of None \<Rightarrow> destroyed this
                           | Some d \<Rightarrow> d # destroyed this)\<rparr>) time obj hm tm"
    unfolding cleanUpOldData_eq [symmetric] Box_testCollision_def
    by (simp only: cleanUpOldData_idem)
  show "destroyed (snd (Circle_testCollision env this time obj hm tm)) =
       (case cData this of None \<Rightarrow> destroyed this | Some d \<Rightarrow> d # destroyed this)"
    by (simp add: Circle_testCollision_def Let_def cleanUp_destroyed split: option.splits)
  show "destroyed (snd (Box_testCollision env this time obj hm tm)) =
       (case cData this of None \<Rightarrow> destroyed this | Some d \<Rightarrow> d # destroyed this)"
    by (simp add: Box_testCollision_def Let_def cleanUp_destroyed split: option.splits)
qed

section \<open>Hosts without the geometry accessor\<close>

text \<open>
  Both early outs join their two tests with \<^verbatim>\<open>&&\<close>: the test is skipped only when the
  candidate lacks the accessor as well. The box collider moreover reads \<^verbatim>\<open>hasMethods\<close>,
  a property that none of its methods assigns, where \<^verbatim>\<open>setHostObject\<close> wrote
  \<^verbatim>\<open>hasMethod\<close>.
\<close>

lemma skipped_when_candidate_lacks_accessor_too:
  "getWorldCircle host = None \<Longrightarrow> getWorldCircle obj = None \<Longrightarrow>
   Circle_testCollision env (Circle_setHostObject c host) time obj hm tm
     = (Returned CONTINUE, cleanUpOldData (Circle_setHostObject c host))"
  "hasMethods c = Undefined \<Longrightarrow> getWorldBox obj = None \<Longrightarrow>
   Box_testCollision env (Box_setHostObject c host) time obj hm tm
     = (Returned CONTINUE, cleanUpOldData (Box_setHostObject c host))"
  by (simp_all add: Circle_testCollision_def Box_testCollision_def Let_def)

text \<open>
  C1. A box collider whose host has no \<^verbatim>\<open>getWorldBox\<close>, tested against a candidate that
  has one, does not return CONTINUE: the early out is passed and the call
  \<^verbatim>\<open>host.getWorldBox()\<close> throws a TypeError. The circle collider does the same with
  \<^verbatim>\<open>getWorldCircle\<close>. No CollisionData is stored on the way.
\<close>

theorem missing_accessor_on_host_throws:
  "Box_testCollision source_env (Box_setHostObject Box_new (bare_object 1)) 0
      (box_object 2 0 0 1 1 CONTINUE) 0 0
     = (Threw TypeError, Box_setHostObject Box_new (bare_object 1))
   \<and> Circle_testCollision source_env (Circle_setHostObject Circle_new (bare_object 1)) 0
      (circle_object 2 0 0 1 CONTINUE) 0 0
     = (Threw TypeError, Circle_setHostObject Circle_new (bare_object 1))
   \<and> cData (Box_setHostObject Box_new (bare_object 1)) = None
   \<and> cData (Circle_setHostObject Circle_new (bare_object 1)) = None"
  by (simp add: eval_defs)

section \<open>The circle collider in simple mode\<close>

text \<open>
  C2. A circle collider in SIMPLE_TEST mode stores no CollisionData, whatever the call
  does; and when the world circles of host and candidate do not intersect, the call
  returns CONTINUE and the host's callback is not invoked. In the source a failed
  intersection test falls through to the squared-distance test of the detailed mode, so
  the statement needs of \<^verbatim>\<open>isIntersecting\<close> that it accepts every pair of circles which
  that test accepts.
\<close>

theorem Circle_simple_test_is_boolean:
  assumes mode: "testMode c = SIMPLE_TEST"
    and sound: "\<And>a b.
      (vx (getCenter a) - vx (getCenter b)) * (vx (getCenter a) - vx (getCenter b))
      + (vy (getCenter a) - vy (getCenter b)) * (vy (getCenter a) - vy (getCenter b))
      < (getRadius a + getRadius b) * (getRadius a + getRadius b)
      \<Longrightarrow> circle_isIntersecting env a b"
  shows "cData (snd (Circle_testCollision env (Circle_setHostObject c host) time obj hm tm)) = None
    \<and> (getWorldCircle host = Some c1 \<and> getWorldCircle obj = Some c2
         \<and> \<not> circle_isIntersecting env c1 c2 \<longrightarrow>
       fst (Circle_testCollision env (Circle_setHostObject c host) time obj hm tm)
         = Returned CONTINUE
       \<and> dispatched (snd (Circle_testCollision env (Circle_setHostObject c host) time obj hm tm))
         = dispatched c)"
proof (intro conjI impI)
  show "cData (snd (Circle_testCollision env (Circle_setHostObject c host) time obj hm tm)) = None"
    using mode sound
    by (simp add: Circle_testCollision_def getHostObject_def getTestMode_def Let_def
        split: option.splits)
next
  assume h: "getWorldCircle host = Some c1 \<and> getWorldCircle obj = Some c2
         \<and> \<not> circle_isIntersecting env c1 c2"
  then have nov:
    "\<not> (vx (getCenter c1) - vx (getCenter c2)) * (vx (getCenter c1) - vx (getCenter c2))
      + (vy (getCenter c1) - vy (getCenter c2)) * (vy (getCenter c1) - vy (getCenter c2))
      < (getRadius c1 + getRadius c2) * (getRadius c1 + getRadius c2)"
    using sound [of c1 c2] by blast
  from h mode nov
  have r: "Circle_testCollision env (Circle_setHostObject c host) time obj hm tm
     = (Returned CONTINUE, cleanUpOldData (Circle_setHostObject c host))"
    by (simp add: Circle_testCollision_def getHostObject_def getTestMode_def Let_def)
  show "fst (Circle_testCollision env (Circle_setHostObject c host) time obj hm tm)
         = Returned CONTINUE"
    by (simp add: r)
  show "dispatched (snd (Circle_testCollision env (Circle_setHostObject c host) time obj hm tm))
         = dispatched c"
    by (simp add: r)
qed

text \<open>
  The theorem at circles of radius 2 around (0,0) and (5,0), with the intersection
  predicate of \<open>source_env\<close>, which accepts whatever the squared-distance test accepts.
\<close>

theorem Circle_simple_test_is_boolean_witness:
  "testMode Circle_new = SIMPLE_TEST
   \<and> circle_isIntersecting source_env = Circle2D_isIntersecting
   \<and> getWorldCircle (circle_object 1 0 0 2 STOP)
       = Some \<lparr>getCenter = \<lparr>vx = 0, vy = 0\<rparr>, getRadius = 2\<rparr>
   \<and> getWorldCircle (circle_object 2 5 0 2 CONTINUE)
       = Some \<lparr>getCenter = \<lparr>vx = 5, vy = 0\<rparr>, getRadius = 2\<rparr>
   \<and> \<not> circle_isIntersecting source_env \<lparr>getCenter = \<lparr>vx = 0, vy = 0\<rparr>, getRadius = 2\<rparr>
          \<lparr>getCenter = \<lparr>vx = 5, vy = 0\<rparr>, getRadius = 2\<rparr>
   \<and> cData (snd (Circle_testCollision source_env
         (Circle_setHostObject Circle_new (circle_object 1 0 0 2 STOP)) 0
         (circle_object 2 5 0 2 CONTINUE) 0 0)) = None
   \<and> fst (Circle_testCollision source_env
         (Circle_setHostObject Circle_new (circle_object 1 0 0 2 STOP)) 0
         (circle_object 2 5 0 2 CONTINUE) 0 0) = Returned CONTINUE
   \<and> dispatched (snd (Circle_testCollision source_env
         (Circle_setHostObject Circle_new (circle_object 1 0 0 2 STOP)) 0
         (circle_object 2 5 0 2 CONTINUE) 0 0)) = []"
proof -
  have m: "testMode Circle_new = SIMPLE_TEST"
    by (simp add: Circle_new_def)
  have s: "\<And>a b. (vx (getCenter a) - vx (getCenter b)) * (vx (getCenter a) - vx (getCenter b))
      + (vy (getCenter a) - vy (getCenter b)) * (vy (getCenter a) - vy (getCenter b))
      < (getRadius a + getRadius b) * (getRadius a + getRadius b)
      \<Longrightarrow> circle_isIntersecting source_env a b"
    by (simp add: source_env_def Circle2D_isIntersecting_def)
  have g1: "getWorldCircle (circle_object 1 0 0 2 STOP)
       = Some \<lparr>getCenter = \<lparr>vx = 0, vy = 0\<rparr>, getRadius = 2\<rparr>"
    by (simp add: circle_object_def)
  have g2: "getWorldCircle (circle_object 2 5 0 2 CONTINUE)
       = Some \<lparr>getCenter = \<lparr>vx = 5, vy = 0\<rparr>, getRadius = 2\<rparr>"
    by (simp add: circle_object_def)
  have n: "\<not> circle_isIntersecting source_env \<lparr>getCenter = \<lparr>vx = 0, vy = 0\<rparr>, getRadius = 2\<rparr>
          \<lparr>getCenter = \<lparr>vx = 5, vy = 0\<rparr>, getRadius = 2\<rparr>"
    by (simp add: source_env_def Circle2D_isIntersecting_def)
  have d: "dispatched Circle_new = []"
    by (simp add: Circle_new_def)
  have e: "circle_isIntersecting source_env = Circle2D_isIntersecting"
    by (simp add: source_env_def)
  from Circle_simple_test_is_boolean [of Circle_new source_env "circle_object 1 0 0 2 STOP"
      0 "circle_object 2 5 0 2 CONTINUE" 0 0
      "\<lparr>getCenter = \<lparr>vx = 0, vy = 0\<rparr>, getRadius = 2\<rparr>"
      "\<lparr>getCenter = \<lparr>vx = 5, vy = 0\<rparr>, getRadius = 2\<rparr>", OF m s]
    m e g1 g2 n d
  show ?thesis by simp
qed

section \<open>The circle collider in detailed mode\<close>

text \<open>
  C3. On an overlap in DETAILED_TEST mode the circle collider passes the identifiers
  \<^verbatim>\<open>shape1\<close> and \<^verbatim>\<open>shape2\<close> to \<^verbatim>\<open>CollisionData.create\<close>; its two circles are the
  locals \<^verbatim>\<open>circle1\<close> and \<^verbatim>\<open>circle2\<close>. With the sources as they are the call ends in a
  ReferenceError and stores nothing; where the surroundings bind the identifiers, shapeA
  is what \<^verbatim>\<open>shape1\<close> is bound to and not the host's circle.
\<close>

theorem Circle_detailed_test_reads_undeclared_shapes:
  "Circle_testCollision source_env
     (Circle_setHostObject (setTestMode Circle_new DETAILED_TEST) (circle_object 1 0 0 2 CONTINUE))
     0 (circle_object 2 3 0 2 CONTINUE) 0 0
   = (Threw ReferenceError,
      Circle_setHostObject (setTestMode Circle_new DETAILED_TEST)
        (circle_object 1 0 0 2 CONTINUE))
   \<and> map_option shapeA (cData (snd (Circle_testCollision
        (source_env\<lparr>shape1 := Some (OtherRef 7), shape2 := Some (OtherRef 8)\<rparr>)
        (Circle_setHostObject (setTestMode Circle_new DETAILED_TEST)
           (circle_object 1 0 0 2 CONTINUE))
        0 (circle_object 2 3 0 2 CONTINUE) 0 0))) = Some (OtherRef 7)"
  by (simp add: eval_defs)

text \<open>
  C4. For circles of radius 2 around (0,0) and (3,0) in DETAILED_TEST mode the circle
  collider detects the overlap (9 < 16), but the call ends in the ReferenceError of
  \<^verbatim>\<open>shape1\<close> before \<^verbatim>\<open>CollisionData.create\<close>: no CollisionData is stored, so there is
  neither a normal nor a separation vector, and the callback is not dispatched.
\<close>

theorem Circle_scenario_stores_nothing:
  "fst (Circle_testCollision source_env
      (Circle_setHostObject (setTestMode Circle_new DETAILED_TEST)
         (circle_object 1 0 0 2 CONTINUE))
      0 (circle_object 2 3 0 2 CONTINUE) 0 0) = Threw ReferenceError
   \<and> map_option normal (cData (snd (Circle_testCollision source_env
      (Circle_setHostObject (setTestMode Circle_new DETAILED_TEST)
         (circle_object 1 0 0 2 CONTINUE))
      0 (circle_object 2 3 0 2 CONTINUE) 0 0))) = None
   \<and> map_option separation (cData (snd (Circle_testCollision source_env
      (Circle_setHostObject (setTestMode Circle_new DETAILED_TEST)
         (circle_object 1 0 0 2 CONTINUE))
      0 (circle_object 2 3 0 2 CONTINUE) 0 0))) = None
   \<and> dispatched (snd (Circle_testCollision source_env
      (Circle_setHostObject (setTestMode Circle_new DETAILED_TEST)
         (circle_object 1 0 0 2 CONTINUE))
      0 (circle_object 2 3 0 2 CONTINUE) 0 0)) = []"
  by (simp add: eval_defs)

text \<open>
  The box collider runs the same computation to its end. For boxes of half extents 2
  around the same two centres it stores the normal (1,0) and the separation (3,0), the
  difference of the centres times diff = 1.
\<close>

lemma Box_scenario_collision_data:
  "cData (snd (Box_testCollision source_env
      (Box_setHostObject (setTestMode Box_new DETAILED_TEST) (box_object 1 0 0 2 2 CONTINUE))
      0 (box_object 2 3 0 2 2 CONTINUE) 0 0))
   = Some \<lparr>distance = 3, normal = \<lparr>vx = 1, vy = 0\<rparr>, shapeA = NullRef, shapeB = NullRef,
           separation = \<lparr>vx = 3, vy = 0\<rparr>\<rparr>"
  by (simp add: eval_defs sqrt_9)

section \<open>The stored distance\<close>





section \<open>The verdict\<close>

text \<open>
  The box collider returns the verdict of the callback dispatch on an overlap, in both
  modes, and CONTINUE without a dispatch otherwise.
\<close>

lemma Box_testCollision_verdict:
  assumes "getWorldBox host = Some b1" "getWorldBox obj = Some b2"
  shows "testMode c = SIMPLE_TEST \<Longrightarrow> rect_isIntersecting env b1 b2 \<Longrightarrow>
     fst (Box_testCollision env (Box_setHostObject c host) time obj hm tm)
       = Returned (onCollide host time (objId obj) hm tm)"
    and "testMode c = SIMPLE_TEST \<Longrightarrow> \<not> rect_isIntersecting env b1 b2 \<Longrightarrow>
     Box_testCollision env (Box_setHostObject c host) time obj hm tm
       = (Returned CONTINUE, cleanUpOldData (Box_setHostObject c host))"
    and "testMode c = DETAILED_TEST \<Longrightarrow>
     (vx (getBoxCenter b1) - vx (getBoxCenter b2)) * (vx (getBoxCenter b1) - vx (getBoxCenter b2))
     + (vy (getBoxCenter b1) - vy (getBoxCenter b2)) * (vy (getBoxCenter b1) - vy (getBoxCenter b2))
     < (max (getHalfWidth b1) (getHalfHeight b1) + max (getHalfWidth b2) (getHalfHeight b2))
       * (max (getHalfWidth b1) (getHalfHeight b1) + max (getHalfWidth b2) (getHalfHeight b2)) \<Longrightarrow>
     fst (Box_testCollision env (Box_setHostObject c host) time obj hm tm)
       = Returned (onCollide host time (objId obj) hm tm)"
    and "testMode c = DETAILED_TEST \<Longrightarrow>
     \<not> (vx (getBoxCenter b1) - vx (getBoxCenter b2)) * (vx (getBoxCenter b1) - vx (getBoxCenter b2))
     + (vy (getBoxCenter b1) - vy (getBoxCenter b2)) * (vy (getBoxCenter b1) - vy (getBoxCenter b2))
     < (max (getHalfWidth b1) (getHalfHeight b1) + max (getHalfWidth b2) (getHalfHeight b2))
       * (max (getHalfWidth b1) (getHalfHeight b1) + max (getHalfWidth b2) (getHalfHeight b2)) \<Longrightarrow>
     Box_testCollision env (Box_setHostObject c host) time obj hm tm
       = (Returned CONTINUE, cleanUpOldData (Box_setHostObject c host))"
  using assms
  by (simp_all add: Box_testCollision_def getHostObject_def getTestMode_def Let_def base_fst)

text \<open>
  C8. The circle collider in DETAILED_TEST mode does not return the callback's verdict
  on an overlap: with a host whose callback answers STOP, the call ends in the
  ReferenceError of \<^verbatim>\<open>shape1\<close> before the dispatch, and the callback is never invoked.
\<close>

theorem Circle_detailed_overlap_never_reaches_callback:
  "fst (Circle_testCollision source_env
     (Circle_setHostObject (setTestMode Circle_new DETAILED_TEST) (circle_object 1 0 0 2 STOP))
     0 (circle_object 2 3 0 2 CONTINUE) 0 0) = Threw ReferenceError
   \<and> dispatched (snd (Circle_testCollision source_env
     (Circle_setHostObject (setTestMode Circle_new DETAILED_TEST) (circle_object 1 0 0 2 STOP))
     0 (circle_object 2 3 0 2 CONTINUE) 0 0)) = []
   \<and> onCollide (circle_object 1 0 0 2 STOP) 0 2 0 0 = STOP"
  by (simp add: eval_defs)

section \<open>Release\<close>

text \<open>
  Both \<^verbatim>\<open>release\<close> methods leave no CollisionData, and the box collider's flag is back
  at the prototype's value.
\<close>

lemma release_clears_rest:
  "cData (Circle_release this) = None"
  "cData (Box_release this) = None"
  "hasMethod (Box_release this) = hasMethod Box_new"
  by (simp_all add: Circle_release_def Box_release_def Box_new_def Collider_release_def)

text \<open>
  C9. \<^verbatim>\<open>release\<close> of the circle collider does not reset the capability cache: it
  assigns \<^verbatim>\<open>null\<close> to \<^verbatim>\<open>hasMethod\<close>, and the cache \<^verbatim>\<open>hasMethods\<close> that
  \<^verbatim>\<open>setHostObject\<close> filled keeps its array, where a component never attached has
  \<^verbatim>\<open>null\<close>.
\<close>

theorem Circle_release_keeps_capability_cache:
  "hasMethods (Circle_release
       (Circle_setHostObject Circle_new (circle_object 1 0 0 2 STOP))) = FlagArray [True]
   \<and> hasMethods Circle_new = Null
   \<and> hasMethod (Circle_release
       (Circle_setHostObject Circle_new (circle_object 1 0 0 2 STOP))) = Null"
  by (simp add: eval_defs)

section \<open>Coinciding centres\<close>

text \<open>
  With equal centres and a positive combined radius the box collider stores a
  CollisionData of distance 0, with the zero vector as separation and the normalised zero
  vector as normal, and dispatches the callback.
\<close>

lemma Box_detailed_coincident_centres:
  assumes "testMode c = DETAILED_TEST" "getWorldBox host = Some b1" "getWorldBox obj = Some b2"
    "getBoxCenter b1 = getBoxCenter b2"
    "0 < max (getHalfWidth b1) (getHalfHeight b1) + max (getHalfWidth b2) (getHalfHeight b2)"
  shows "Box_testCollision env (Box_setHostObject c host) time obj hm tm =
    (Returned (onCollide host time (objId obj) hm tm),
     (cleanUpOldData (Box_setHostObject c host))
       \<lparr>cData := Some \<lparr>distance = 0, normal = Vector2D_normalize \<lparr>vx = 0, vy = 0\<rparr>,
            shapeA = NullRef, shapeB = NullRef, separation = \<lparr>vx = 0, vy = 0\<rparr>\<rparr>,
        dispatched := objId obj # dispatched c\<rparr>)"
  using assms
  by (simp add: Box_testCollision_def getHostObject_def getTestMode_def Let_def
      Collider_testCollision_def setCollisionData_def CollisionData_create_def Vector2D_len_def)

text \<open>
  C10. For the circle collider the same situation, two circles of radius 1 around (0,0)
  in DETAILED_TEST mode, ends in the ReferenceError of \<^verbatim>\<open>shape1\<close>: the collision is
  detected, but no CollisionData is stored and the callback is not dispatched.
\<close>

theorem Circle_detailed_coincident_centres_throw:
  "Circle_testCollision source_env
     (Circle_setHostObject (setTestMode Circle_new DETAILED_TEST) (circle_object 1 0 0 1 STOP))
     0 (circle_object 2 0 0 1 CONTINUE) 0 0
   = (Threw ReferenceError,
      Circle_setHostObject (setTestMode Circle_new DETAILED_TEST) (circle_object 1 0 0 1 STOP))
   \<and> cData (Circle_setHostObject (setTestMode Circle_new DETAILED_TEST)
        (circle_object 1 0 0 1 STOP)) = None
   \<and> dispatched (Circle_setHostObject (setTestMode Circle_new DETAILED_TEST)
        (circle_object 1 0 0 1 STOP)) = []"
  by (simp add: eval_defs)

end
